theory Spec2Isabelle
  imports Main "HOL-Library.Word"
begin

section \<open>The Docker recipe builder of nsync\<close>

text \<open>
  A shallow embedding of \<^verbatim>\<open>recipebuilder/docker_recipe_builder.go\<close>.
  Go strings are byte sequences and are modelled as \<^typ>\<open>string\<close>; a Go \<^verbatim>\<open>error\<close>
  is a value of the datatype \<open>error\<close>, and a function returning \<^verbatim>\<open>(T, error)\<close>
  returns \<open>error + T\<close>. A run-time panic of the Go code (an index out of range) is the
  error value \<open>PanicIndexOutOfRange\<close>, so that it is a branch of the model like any other.
\<close>

subsection \<open>Errors\<close>

text \<open>
  The four sentinel errors are package-level variables of the recipe builder.
  \<open>ErrorString\<close> is the error made in place by \<^verbatim>\<open>errors.New\<close> and \<^verbatim>\<open>fmt.Errorf\<close>; it carries
  the message. \<open>CollaboratorError\<close> is an error handed back by one of the collaborators
  (metadata decoding, route translation, key factory, JSON encoding): the builder returns
  it unchanged, and it is never one of the builder's own sentinels.
\<close>

datatype error =
    ErrDockerImageMissing
  | ErrMultipleAppSources
  | ErrNoDockerImage
  | ErrNoLifecycleDefined
  | ErrorString string
  | CollaboratorError string
  | PanicIndexOutOfRange

subsection \<open>The functions of Go's strings package that the builder calls\<close>

text \<open>\<^verbatim>\<open>strings.HasPrefix(s, prefix)\<close>.\<close>

fun HasPrefix :: "string \<Rightarrow> string \<Rightarrow> bool" where
  "HasPrefix s [] = True"
| "HasPrefix [] (p # ps) = False"
| "HasPrefix (c # cs) (p # ps) = (c = p \<and> HasPrefix cs ps)"

text \<open>\<^verbatim>\<open>strings.Contains(s, substr)\<close>: \<open>substr\<close> occurs in \<open>s\<close> as a contiguous block.\<close>

fun Contains :: "string \<Rightarrow> string \<Rightarrow> bool" where
  "Contains [] substr = (substr = [])"
| "Contains (c # cs) substr = (HasPrefix (c # cs) substr \<or> Contains cs substr)"

text \<open>
  \<^verbatim>\<open>strings.IndexRune(s, r)\<close> for an ASCII rune \<open>r\<close>: the index of the first byte equal to
  \<open>r\<close>, or \<open>-1\<close>.
\<close>

fun IndexRune :: "string \<Rightarrow> char \<Rightarrow> int" where
  "IndexRune [] r = - 1"
| "IndexRune (c # cs) r =
     (if c = r then 0
      else (let i = IndexRune cs r in if i < 0 then - 1 else i + 1))"

text \<open>
  \<^verbatim>\<open>strings.LastIndex(s, sep)\<close> for a one-byte separator: the index of the last byte equal
  to it, or \<open>-1\<close>.
\<close>

fun LastIndex :: "string \<Rightarrow> char \<Rightarrow> int" where
  "LastIndex [] sep = - 1"
| "LastIndex (c # cs) sep =
     (let i = LastIndex cs sep in
      if 0 \<le> i then i + 1 else if c = sep then 0 else - 1)"

text \<open>
  \<^verbatim>\<open>strings.SplitN(s, sep, 2)\<close> for a one-byte separator: the text before the first
  separator and the text after it, or \<open>s\<close> alone when it holds no separator.
\<close>

definition SplitN2 :: "string \<Rightarrow> char \<Rightarrow> string list" where
  "SplitN2 s sep =
     (if sep \<in> set s
      then [takeWhile (\<lambda>c. c \<noteq> sep) s, tl (dropWhile (\<lambda>c. c \<noteq> sep) s)]
      else [s])"

text \<open>
  \<^verbatim>\<open>strings.Replace(s, old, new, 1)\<close> for one-byte \<open>old\<close> and \<open>new\<close>: the first occurrence
  is replaced.
\<close>

fun Replace1 :: "string \<Rightarrow> char \<Rightarrow> char \<Rightarrow> string" where
  "Replace1 [] old new = []"
| "Replace1 (c # cs) old new = (if c = old then new # cs else c # Replace1 cs old new)"

text \<open>Indexing a Go slice: an index outside the slice panics.\<close>

definition index :: "'a list \<Rightarrow> nat \<Rightarrow> error + 'a" where
  "index xs i = (if i < length xs then Inr (xs ! i) else Inl PanicIndexOutOfRange)"

subsection \<open>Normalising the image reference\<close>

definition DockerScheme :: string where
  "DockerScheme = ''docker''"

definition DockerIndexServer :: string where
  "DockerIndexServer = ''docker.io''"

text \<open>
  \<^verbatim>\<open>officialRegistry\<close>. Go's \<open>||\<close> is evaluated left to right and stops at the first true
  operand, so \<^verbatim>\<open>nameParts[0]\<close> is read only when the slice has other than one element;
  \<^verbatim>\<open>strings.SplitN\<close> with limit 2 returns one or two elements, so that read is in range.
\<close>

definition officialRegistry :: "string list \<Rightarrow> error + bool" where
  "officialRegistry nameParts =
     (if length nameParts = 1 then Inr True
      else case index nameParts 0 of
        Inl e \<Rightarrow> Inl e
      | Inr p0 \<Rightarrow>
          Inr (p0 = DockerIndexServer \<or>
               (\<not> Contains p0 ''.'' \<and> \<not> Contains p0 '':'' \<and> p0 \<noteq> ''localhost'')))"

text \<open>\<^verbatim>\<open>parseDockerRepositoryTag\<close>; \<^verbatim>\<open>remoteName[n+1:]\<close> and \<^verbatim>\<open>remoteName[:n]\<close> are in range
  whenever \<open>n\<close> is an index of \<open>remoteName\<close>.\<close>

definition parseDockerRepositoryTag :: "string \<Rightarrow> string \<times> string" where
  "parseDockerRepositoryTag remoteName =
     (let n = LastIndex remoteName CHR '':'' in
      if n < 0 then (remoteName, '''')
      else (let tag = drop (nat (n + 1)) remoteName in
            if \<not> Contains tag ''/'' then (take (nat n) remoteName, tag)
            else (remoteName, '''')))"

text \<open>
  \<^verbatim>\<open>parseDockerRepoUrl\<close>, returning the triple (index name, remote name, tag), or the panic
  of an out-of-range \<^verbatim>\<open>nameParts[1]\<close>.
\<close>

definition parseDockerRepoUrl :: "string \<Rightarrow> error + (string \<times> string \<times> string)" where
  "parseDockerRepoUrl dockerURI =
     (let nameParts = SplitN2 dockerURI CHR ''/'' in
      case officialRegistry nameParts of
        Inl e \<Rightarrow> Inl e
      | Inr official \<Rightarrow>
          (case (if official
                 then (case index nameParts 0 of
                         Inl e \<Rightarrow> Inl e
                       | Inr p0 \<Rightarrow>
                           (case (if p0 = DockerIndexServer
                                  then (case index nameParts 1 of
                                          Inl e \<Rightarrow> Inl e
                                        | Inr p1 \<Rightarrow> Inr (DockerIndexServer, p1))
                                  else Inr ('''', dockerURI)) of
                              Inl e \<Rightarrow> Inl e
                            | Inr (indexName, remoteName) \<Rightarrow>
                                if IndexRune remoteName CHR ''/'' = - 1
                                then Inr (indexName, ''library/'' @ remoteName)
                                else Inr (indexName, remoteName)))
                 else (case index nameParts 0 of
                         Inl e \<Rightarrow> Inl e
                       | Inr p0 \<Rightarrow>
                           (case index nameParts 1 of
                              Inl e \<Rightarrow> Inl e
                            | Inr p1 \<Rightarrow> Inr (p0, p1)))) of
             Inl e \<Rightarrow> Inl e
           | Inr (indexName, remoteName) \<Rightarrow>
               (case parseDockerRepositoryTag remoteName of
                  (remoteName', tag) \<Rightarrow> Inr (indexName, remoteName', tag))))"

text \<open>
  The URL value that \<^verbatim>\<open>convertDockerURI\<close> builds; only these three fields of Go's
  \<^verbatim>\<open>url.URL\<close> are set.
\<close>

record URL =
  Scheme :: string
  Path :: string
  Fragment :: string

text \<open>
  \<^verbatim>\<open>convertDockerURI\<close>. The serialiser \<^verbatim>\<open>(*url.URL).String\<close> belongs to Go's standard library
  and is the parameter \<open>URL_String\<close>; its result type is left open, so that the URL value
  handed to it can be observed as well as its rendering.
\<close>

definition convertDockerURI :: "(URL \<Rightarrow> 'a) \<Rightarrow> string \<Rightarrow> error + 'a" where
  "convertDockerURI URL_String dockerURI =
     (if Contains dockerURI ''://''
      then Inl (ErrorString (''docker URI ['' @ dockerURI @ ''] should not contain scheme''))
      else case parseDockerRepoUrl dockerURI of
        Inl e \<Rightarrow> Inl e
      | Inr (indexName, remoteName, tag) \<Rightarrow>
          Inr (URL_String \<lparr>Scheme = DockerScheme,
                           Path = indexName @ ''/'' @ remoteName,
                           Fragment = tag\<rparr>))"

text \<open>
  The canonical reference path that the idempotence property of the specification
  re-parses, in the specification's words: the index name, \<open>/\<close> and the repository, or the
  repository alone when the index name is empty, and then \<open>:\<close> with the tag when the tag
  is not empty. (The source has no function of this name; its own path is the \<open>Path\<close>
  field above.)
\<close>

definition canonical_reference_path :: "string \<Rightarrow> string \<Rightarrow> string \<Rightarrow> string" where
  "canonical_reference_path indexName repository tag =
     (if indexName = [] then repository else indexName @ ''/'' @ repository) @
     (if tag = [] then [] else '':'' @ tag)"

subsection \<open>Execution metadata: user and exposed ports\<close>

text \<open>
  The decoded image metadata. Ports are \<^verbatim>\<open>uint32\<close>. The struct declarations are in a file of
  the package that is not among the sources; the fields are those the builder reads.
\<close>

record ExposedPort =
  Port :: "32 word"
  Protocol :: string

record DockerExecutionMetadata =
  User :: string
  ExposedPorts :: "ExposedPort list"

text \<open>
  \<^verbatim>\<open>extractExposedPorts\<close>. The constant \<^verbatim>\<open>DefaultPort\<close> is declared outside the sources and
  is a parameter. The loop is a fold over the declared ports whose state is the pair of
  the variables \<^verbatim>\<open>exposedPort\<close> and \<^verbatim>\<open>ports\<close>. Logging has no effect on the result and is
  left out, here and below.
\<close>

definition extractExposedPorts :: "32 word \<Rightarrow> DockerExecutionMetadata \<Rightarrow> error + 32 word list" where
  "extractExposedPorts DefaultPort executionMetadata =
     (let exposedPort = DefaultPort;
          exposedPorts = ExposedPorts executionMetadata;
          ports = [];
          ports = (if length exposedPorts = 0 then ports @ [exposedPort] else ports);
          (exposedPort, ports) =
            fold (\<lambda>port (exposedPort, ports).
                    if Protocol port = ''tcp''
                    then (let exposedPort = Port port in (exposedPort, ports @ [exposedPort]))
                    else (exposedPort, ports))
                 exposedPorts (exposedPort, ports)
      in if length ports = 0
         then Inl (ErrorString ''No tcp ports found in image metadata'')
         else Inr ports)"

definition extractUser :: "DockerExecutionMetadata \<Rightarrow> error + string" where
  "extractUser executionMetadata =
     (if length (User executionMetadata) > 0 then Inr (User executionMetadata)
      else Inr ''root'')"

subsection \<open>Requests, actions and the desired LRP\<close>

type_synonym EnvironmentVariable = "string \<times> string"

typedecl SecurityGroupRule

text \<open>Go maps from route identifiers to raw JSON messages.\<close>

type_synonym CCRouteInfo = "string \<rightharpoonup> string"

type_synonym Routes = "string \<rightharpoonup> string"

text \<open>
  The request, with the fields that \<^verbatim>\<open>Build\<close> reads. Go's \<^verbatim>\<open>int\<close> and \<^verbatim>\<open>uint\<close> are taken at
  64 bits; the conversions \<^verbatim>\<open>int32(x)\<close> and \<^verbatim>\<open>uint32(x)\<close> keep the low 32 bits.
\<close>

record DesireAppRequestFromCC =
  ProcessGuid :: string
  DropletUri :: string
  DockerImageUrl :: string
  StartCommand :: string
  ExecutionMetadata :: string
  Environment :: "EnvironmentVariable list"
  MemoryMB :: "64 word"
  DiskMB :: "64 word"
  FileDescriptors :: "64 word"
  NumInstances :: "64 word"
  RoutingInfo :: CCRouteInfo
  AllowSSH :: bool
  LogGuid :: string
  HealthCheckType :: string
  HealthCheckTimeoutInSeconds :: "64 word"
  EgressRules :: "SecurityGroupRule list"
  ETag :: string

record ResourceLimits =
  Nofile :: "64 word option"

text \<open>
  The actions of the executor. The arguments of \<open>DownloadAction\<close> are the fields From, To,
  CacheKey and User; those of \<open>RunAction\<close> are User, Path, Args, Env, LogSource and
  ResourceLimits; \<open>TimeoutAction\<close> has the wrapped action and the timeout in nanoseconds.
\<close>

datatype ActionInterface =
    DownloadAction string string string string
  | RunAction string string "string list" "EnvironmentVariable list" string
      "ResourceLimits option"
  | TimeoutAction ActionInterface int
  | SerialAction "ActionInterface list"
  | ParallelAction "ActionInterface list"
  | CodependentAction "ActionInterface list"

text \<open>\<^verbatim>\<open>time.Second\<close>, in nanoseconds.\<close>

definition Second :: int where
  "Second = 1000000000"

text \<open>The constructors of the models package that the builder calls.\<close>

definition Timeout :: "ActionInterface \<Rightarrow> int \<Rightarrow> ActionInterface" where
  "Timeout action timeout = TimeoutAction action timeout"

definition Serial :: "ActionInterface list \<Rightarrow> ActionInterface" where
  "Serial actions = SerialAction actions"

definition Codependent :: "ActionInterface list \<Rightarrow> ActionInterface" where
  "Codependent actions = CodependentAction actions"

text \<open>\<^verbatim>\<open>models.WrapAction\<close>: a nil action stays nil (\<open>None\<close>).\<close>

definition WrapAction :: "ActionInterface option \<Rightarrow> ActionInterface option" where
  "WrapAction action = (case action of None \<Rightarrow> None | Some a \<Rightarrow> Some a)"

record KeyPair =
  PEMEncodedPrivateKey :: string
  AuthorizedKey :: string
  Fingerprint :: string

record SSHRoute =
  ContainerPort :: "32 word"
  PrivateKey :: string
  HostFingerprint :: string

text \<open>
  The desired LRP that \<^verbatim>\<open>Build\<close> returns. A field whose name the request has too carries
  the prefix \<open>lrp\<close>.
\<close>

record DesiredLRP =
  Privileged :: bool
  Domain :: string
  lrpProcessGuid :: string
  Instances :: "32 word"
  Routes :: Routes
  Annotation :: string
  CpuWeight :: "32 word"
  MemoryMb :: "32 word"
  DiskMb :: "32 word"
  Ports :: "32 word list"
  RootFs :: string
  lrpLogGuid :: string
  lrpLogSource :: string
  MetricsGuid :: string
  EnvironmentVariables :: "EnvironmentVariable list"
  Setup :: "ActionInterface option"
  Action :: "ActionInterface option"
  Monitor :: "ActionInterface option"
  StartTimeout :: "32 word"
  lrpEgressRules :: "SecurityGroupRule list"

subsection \<open>What the builder takes from outside the sources\<close>

text \<open>
  Constants and functions that \<^verbatim>\<open>Build\<close> uses and that are declared in other files of the
  package, in other packages of the repository or in libraries. They are parameters of
  the model. A collaborator that can fail returns the message of its error on the left.
\<close>

record Externals =
  DefaultPort :: "32 word"
  DefaultSSHPort :: "32 word"
  DefaultFileDescriptorLimit :: "64 word"
  AppLogSource :: string
  LRPLogSource :: string
  AppLRPDomain :: string
  DIEGO_SSH :: string
  PortHealthCheckType :: string
  UnspecifiedHealthCheckType :: string
  lifecycleDownloadURL :: "string \<Rightarrow> string \<Rightarrow> string"
  NewDockerExecutionMetadata :: "string \<Rightarrow> string + DockerExecutionMetadata"
  getParallelAction :: "32 word list \<Rightarrow> string \<Rightarrow> ActionInterface"
  createLrpEnv :: "EnvironmentVariable list \<Rightarrow> 32 word \<Rightarrow> EnvironmentVariable list"
  CCRouteInfoToRoutes :: "CCRouteInfo \<Rightarrow> 32 word list \<Rightarrow> string + Routes"
  cpuWeight :: "64 word \<Rightarrow> 32 word"
  json_Marshal :: "SSHRoute \<Rightarrow> string + string"
  URL_String :: "URL \<Rightarrow> string"

text \<open>
  The configuration of the builder. The key factory draws fresh keys, so it is a
  function on an explicit state \<open>'k\<close>: it takes the state and the key size and returns
  a key pair or the message of its error, with the next state.
\<close>

record 'k Config =
  Lifecycles :: "string \<rightharpoonup> string"
  FileServerURL :: string
  NewKeyPair :: "'k \<Rightarrow> nat \<Rightarrow> (string + KeyPair) \<times> 'k"

text \<open>\<^verbatim>\<open>fmt.Sprintf("%d", n)\<close> for an unsigned number.\<close>

fun decimal :: "nat \<Rightarrow> string" where
  "decimal n =
     (if n < 10 then [''0123456789'' ! n]
      else decimal (n div 10) @ [''0123456789'' ! (n mod 10)])"

declare decimal.simps [simp del]

subsection \<open>Build\<close>

text \<open>
  \<^verbatim>\<open>Build\<close>, statement by statement. It returns the desired LRP or the error, and the state
  of the key factory after the call.
\<close>

definition Build ::
  "Externals \<Rightarrow> 'k Config \<Rightarrow> 'k \<Rightarrow> DesireAppRequestFromCC \<Rightarrow> (error + DesiredLRP) \<times> 'k" where
  "Build ext config ks desiredApp =
     (let lrpGuid = ProcessGuid desiredApp in
      if DockerImageUrl desiredApp = '''' then (Inl ErrDockerImageMissing, ks)
      else if DropletUri desiredApp \<noteq> '''' \<and> DockerImageUrl desiredApp \<noteq> ''''
      then (Inl ErrMultipleAppSources, ks)
      else if DockerImageUrl desiredApp = '''' then (Inl ErrNoDockerImage, ks)
      else
      let lifecycle = ''docker'' in
      case Lifecycles config lifecycle of
        None \<Rightarrow> (Inl ErrNoLifecycleDefined, ks)
      | Some lifecyclePath \<Rightarrow>
      let lifecycleURL = lifecycleDownloadURL ext lifecyclePath (FileServerURL config) in
      case convertDockerURI (URL_String ext) (DockerImageUrl desiredApp) of
        Inl err \<Rightarrow> (Inl err, ks)
      | Inr rootFSPath \<Rightarrow>
      let privilegedContainer = False;
          containerEnvVars = [];
          numFiles = DefaultFileDescriptorLimit ext;
          numFiles = (if FileDescriptors desiredApp \<noteq> 0 then FileDescriptors desiredApp
                      else numFiles)
      in
      case NewDockerExecutionMetadata ext (ExecutionMetadata desiredApp) of
        Inl err \<Rightarrow> (Inl (CollaboratorError err), ks)
      | Inr executionMetadata \<Rightarrow>
      case extractUser executionMetadata of
        Inl err \<Rightarrow> (Inl err, ks)
      | Inr user \<Rightarrow>
      let setup = [DownloadAction lifecycleURL ''/tmp/lifecycle''
                     (Replace1 lifecycle CHR ''/'' CHR ''-'' @ ''-lifecycle'') user]
      in
      case extractExposedPorts (DefaultPort ext) executionMetadata of
        Inl err \<Rightarrow> (Inl err, ks)
      | Inr desiredAppPorts \<Rightarrow>
      let monitor =
            (if HealthCheckType desiredApp = PortHealthCheckType ext \<or>
                HealthCheckType desiredApp = UnspecifiedHealthCheckType ext
             then Some (Timeout (getParallelAction ext desiredAppPorts user) (30 * Second))
             else None)
      in
      case index desiredAppPorts 0 of
        Inl err \<Rightarrow> (Inl err, ks)
      | Inr port0 \<Rightarrow>
      let actions = [RunAction user ''/tmp/lifecycle/launcher''
                       ([''app''] @ [StartCommand desiredApp, ExecutionMetadata desiredApp])
                       (createLrpEnv ext (Environment desiredApp) port0)
                       (AppLogSource ext)
                       (Some \<lparr>Nofile = Some numFiles\<rparr>)]
      in
      case CCRouteInfoToRoutes ext (RoutingInfo desiredApp) desiredAppPorts of
        Inl err \<Rightarrow> (Inl (CollaboratorError err), ks)
      | Inr desiredAppRoutingInfo \<Rightarrow>
      case (if AllowSSH desiredApp
            then (case NewKeyPair config ks 1024 of
                    (Inl err, ks) \<Rightarrow> (Inl (CollaboratorError err), ks)
                  | (Inr hostKeyPair, ks) \<Rightarrow>
                 (case NewKeyPair config ks 1024 of
                    (Inl err, ks) \<Rightarrow> (Inl (CollaboratorError err), ks)
                  | (Inr userKeyPair, ks) \<Rightarrow>
                 (case index desiredAppPorts 0 of
                    Inl err \<Rightarrow> (Inl err, ks)
                  | Inr port0 \<Rightarrow>
                 let actions = actions @
                       [RunAction user ''/tmp/lifecycle/diego-sshd''
                          [''-address='' @ (''0.0.0.0:'' @ decimal (unat (DefaultSSHPort ext))),
                           ''-hostKey='' @ PEMEncodedPrivateKey hostKeyPair,
                           ''-authorizedKey='' @ AuthorizedKey userKeyPair,
                           ''-inheritDaemonEnv'',
                           ''-logLevel=fatal'']
                          (createLrpEnv ext (Environment desiredApp) port0)
                          ''''
                          (Some \<lparr>Nofile = Some numFiles\<rparr>)]
                 in
                 (case json_Marshal ext
                         \<lparr>ContainerPort = 2222,
                          PrivateKey = PEMEncodedPrivateKey userKeyPair,
                          HostFingerprint = Fingerprint hostKeyPair\<rparr> of
                    Inl err \<Rightarrow> (Inl (CollaboratorError err), ks)
                  | Inr sshRoutePayload \<Rightarrow>
                 let sshRouteMessage = sshRoutePayload;
                     desiredAppRoutingInfo =
                       desiredAppRoutingInfo(DIEGO_SSH ext \<mapsto> sshRouteMessage);
                     desiredAppPorts = desiredAppPorts @ [DefaultSSHPort ext]
                 in (Inr (actions, desiredAppRoutingInfo, desiredAppPorts), ks)))))
            else (Inr (actions, desiredAppRoutingInfo, desiredAppPorts), ks)) of
        (Inl err, ks) \<Rightarrow> (Inl err, ks)
      | (Inr (actions, desiredAppRoutingInfo, desiredAppPorts), ks) \<Rightarrow>
      let setupAction = Serial setup;
          actionAction = Codependent actions
      in
      (Inr \<lparr>Privileged = privilegedContainer,
            Domain = AppLRPDomain ext,
            lrpProcessGuid = lrpGuid,
            Instances = ucast (NumInstances desiredApp),
            Routes = desiredAppRoutingInfo,
            Annotation = ETag desiredApp,
            CpuWeight = cpuWeight ext (MemoryMB desiredApp),
            MemoryMb = ucast (MemoryMB desiredApp),
            DiskMb = ucast (DiskMB desiredApp),
            Ports = desiredAppPorts,
            RootFs = rootFSPath,
            lrpLogGuid = LogGuid desiredApp,
            lrpLogSource = LRPLogSource ext,
            MetricsGuid = LogGuid desiredApp,
            EnvironmentVariables = containerEnvVars,
            Setup = WrapAction (Some setupAction),
            Action = WrapAction (Some actionAction),
            Monitor = WrapAction monitor,
            StartTimeout = ucast (HealthCheckTimeoutInSeconds desiredApp),
            lrpEgressRules = EgressRules desiredApp\<rparr>, ks))"

text \<open>The method \<^verbatim>\<open>ExtractExposedPorts\<close> of the builder: decode, then extract.\<close>

definition ExtractExposedPorts :: "Externals \<Rightarrow> DesireAppRequestFromCC \<Rightarrow> error + 32 word list" where
  "ExtractExposedPorts ext desiredApp =
     (let executionMetadata = ExecutionMetadata desiredApp in
      case NewDockerExecutionMetadata ext executionMetadata of
        Inl err \<Rightarrow> Inl (CollaboratorError err)
      | Inr metadata \<Rightarrow> extractExposedPorts (DefaultPort ext) metadata)"

subsection \<open>A sample platform, configuration and request\<close>

text \<open>
  Sample values for the parameters, in the style of the package's tests: a platform whose
  metadata decoder knows the blob \<open>{}\<close>, whose route translation returns one router
  entry, and a key factory that numbers its keys.
\<close>

definition example_Externals :: Externals where
  "example_Externals =
     \<lparr>DefaultPort = 8080,
      DefaultSSHPort = 2222,
      DefaultFileDescriptorLimit = 1024,
      AppLogSource = ''APP'',
      LRPLogSource = ''CELL'',
      AppLRPDomain = ''cf-apps'',
      DIEGO_SSH = ''diego-ssh'',
      PortHealthCheckType = ''port'',
      UnspecifiedHealthCheckType = '''',
      lifecycleDownloadURL =
        (\<lambda>lifecyclePath fileServerURL. fileServerURL @ ''/v1/static/'' @ lifecyclePath),
      NewDockerExecutionMetadata =
        (\<lambda>blob. if blob = ''{}'' then Inr \<lparr>User = '''', ExposedPorts = []\<rparr>
                else Inl ''unexpected end of JSON input''),
      getParallelAction =
        (\<lambda>ports user. ParallelAction
           (map (\<lambda>port. RunAction user ''/tmp/lifecycle/healthcheck''
                           [''-port='' @ decimal (unat port)] [] ''HEALTH'' None) ports)),
      createLrpEnv = (\<lambda>env port. env @ [(''PORT'', decimal (unat port))]),
      CCRouteInfoToRoutes = (\<lambda>routingInfo ports. Inr [''cf-router'' \<mapsto> ''[]'']),
      cpuWeight = (\<lambda>memoryMB. 1),
      json_Marshal =
        (\<lambda>route. Inr (''container_port='' @ decimal (unat (ContainerPort route)) @
                     '',private_key='' @ PrivateKey route @
                     '',host_fingerprint='' @ HostFingerprint route)),
      URL_String =
        (\<lambda>u. Scheme u @ ''://'' @ Path u @
              (if Fragment u = [] then [] else ''#'' @ Fragment u))\<rparr>"

definition example_Config :: "nat Config" where
  "example_Config =
     \<lparr>Lifecycles = [''docker'' \<mapsto> ''docker_lifecycle/docker_app_lifecycle.tgz''],
      FileServerURL = ''http://file-server.com'',
      NewKeyPair =
        (\<lambda>ks bits. (Inr \<lparr>PEMEncodedPrivateKey = ''pem-'' @ decimal ks,
                          AuthorizedKey = ''authorized-'' @ decimal ks,
                          Fingerprint = ''fingerprint-'' @ decimal ks\<rparr>, Suc ks))\<rparr>"

definition example_request :: DesireAppRequestFromCC where
  "example_request =
     \<lparr>ProcessGuid = ''the-app-guid-the-app-version'',
      DropletUri = '''',
      DockerImageUrl = ''user/repo:tag'',
      StartCommand = ''the-start-command'',
      ExecutionMetadata = ''{}'',
      Environment = [(''foo'', ''bar'')],
      MemoryMB = 128,
      DiskMB = 512,
      FileDescriptors = 32,
      NumInstances = 23,
      RoutingInfo = Map.empty,
      AllowSSH = False,
      LogGuid = ''the-log-id'',
      HealthCheckType = ''port'',
      HealthCheckTimeoutInSeconds = 123456,
      EgressRules = [],
      ETag = ''etag-updated-at''\<rparr>"






section \<open>Facts about the string functions\<close>

lemma HasPrefix_single: "HasPrefix s [c] = (s \<noteq> [] \<and> hd s = c)"
  by (cases s) auto

lemma Contains_single: "Contains s [c] = (c \<in> set s)"
  by (induction s) (auto simp: HasPrefix_single)

lemma IndexRune_ge: "- 1 \<le> IndexRune s r"
  by (induction s) (auto simp: Let_def)

lemma IndexRune_absent: "(IndexRune s r = - 1) = (r \<notin> set s)"
proof (induction s)
  case Nil
  show ?case by simp
next
  case (Cons c cs)
  have "- 1 \<le> IndexRune cs r" by (rule IndexRune_ge)
  with Cons show ?case by (auto simp: Let_def)
qed

lemma LastIndex_absent: "(LastIndex s sep < 0) = (sep \<notin> set s)"
  by (induction s) (auto simp: Let_def)

lemma LastIndex_append: "sep \<notin> set b \<Longrightarrow> LastIndex (a @ sep # b) sep = int (length a)"
proof (induction a)
  case Nil
  then have "LastIndex b sep < 0" by (simp add: LastIndex_absent)
  then show ?case by (simp add: Let_def)
next
  case (Cons c a)
  then show ?case by (simp add: Let_def)
qed

lemma LastIndex_split:
  "sep \<in> set s \<Longrightarrow>
   s = take (nat (LastIndex s sep)) s @ sep # drop (nat (LastIndex s sep + 1)) s \<and>
   sep \<notin> set (drop (nat (LastIndex s sep + 1)) s)"
proof (induction s)
  case Nil
  then show ?case by simp
next
  case (Cons c cs)
  show ?case
  proof (cases "sep \<in> set cs")
    case True
    then have nn: "0 \<le> LastIndex cs sep" using LastIndex_absent [of cs sep] by simp
    from Cons.IH [OF True] nn show ?thesis
      by (simp add: Let_def nat_add_distrib)
  next
    case False
    then have neg: "LastIndex cs sep < 0" by (simp add: LastIndex_absent)
    with Cons.prems False show ?thesis by (simp add: Let_def)
  qed
qed

lemma SplitN2_append:
  "sep \<notin> set a \<Longrightarrow> SplitN2 (a @ sep # b) sep = [a, b]"
proof -
  assume a: "sep \<notin> set a"
  then have "takeWhile (\<lambda>c. c \<noteq> sep) (a @ sep # b) = a"
    by (induction a) auto
  moreover from a have "dropWhile (\<lambda>c. c \<noteq> sep) (a @ sep # b) = sep # b"
    by (induction a) auto
  ultimately show ?thesis by (simp add: SplitN2_def)
qed

lemma SplitN2_cases:
  "(sep \<notin> set s \<and> SplitN2 s sep = [s]) \<or>
   (\<exists>a b. s = a @ sep # b \<and> sep \<notin> set a \<and> SplitN2 s sep = [a, b])"
proof (cases "sep \<in> set s")
  case False
  then show ?thesis by (simp add: SplitN2_def)
next
  case True
  then obtain a b where "s = a @ sep # b" "sep \<notin> set a"
    by (meson split_list_first)
  then show ?thesis using SplitN2_append by blast
qed

section \<open>Facts about the image-reference parser\<close>

text \<open>
  What \<open>parseDockerRepositoryTag\<close> returns: either the name unchanged and no tag, or the
  name cut at its last colon, the tag holding neither a colon nor a slash.
\<close>

lemma parseDockerRepositoryTag_cases:
  "parseDockerRepositoryTag m = (r, t) \<Longrightarrow>
   (r = m \<and> t = []) \<or> (m = r @ CHR '':'' # t \<and> CHR '':'' \<notin> set t \<and> CHR ''/'' \<notin> set t)"
proof (cases "CHR '':'' \<in> set m")
  case False
  assume "parseDockerRepositoryTag m = (r, t)"
  with False show ?thesis
    by (simp add: parseDockerRepositoryTag_def LastIndex_absent)
next
  case True
  assume p: "parseDockerRepositoryTag m = (r, t)"
  from True have nn: "\<not> LastIndex m CHR '':'' < 0" by (simp add: LastIndex_absent)
  define n where "n = LastIndex m CHR '':''"
  define tag where "tag = drop (nat (n + 1)) m"
  from LastIndex_split [OF True]
  have m: "m = take (nat n) m @ CHR '':'' # tag" and notin: "CHR '':'' \<notin> set tag"
    by (simp_all add: n_def tag_def)
  from p nn have "(if CHR ''/'' \<notin> set tag then (take (nat n) m, tag) else (m, [])) = (r, t)"
    by (auto simp: parseDockerRepositoryTag_def Let_def Contains_single n_def tag_def
        split: if_splits)
  with m notin show ?thesis
    by (auto split: if_splits)
qed

lemma parseDockerRepositoryTag_append:
  "CHR '':'' \<notin> set t \<Longrightarrow> CHR ''/'' \<notin> set t \<Longrightarrow>
   parseDockerRepositoryTag (r @ CHR '':'' # t) = (r, t)"
proof -
  assume a: "CHR '':'' \<notin> set t" "CHR ''/'' \<notin> set t"
  have n: "nat (int (length r) + 1) = Suc (length r)" by simp
  from a show ?thesis
    by (simp add: parseDockerRepositoryTag_def LastIndex_append Contains_single Let_def n)
qed

lemma parseDockerRepositoryTag_slash:
  "parseDockerRepositoryTag m = (r, t) \<Longrightarrow> CHR ''/'' \<in> set m \<Longrightarrow> CHR ''/'' \<in> set r"
  by (drule parseDockerRepositoryTag_cases) auto

lemma parseDockerRepositoryTag_again:
  assumes "parseDockerRepositoryTag m = (r, t)"
    and "t \<noteq> [] \<or> parseDockerRepositoryTag r = (r, [])"
  shows "parseDockerRepositoryTag (r @ (if t = [] then [] else '':'' @ t)) = (r, t)"
proof (cases "t = []")
  case True
  with assms(2) show ?thesis by simp
next
  case False
  with parseDockerRepositoryTag_cases [OF assms(1)]
  have "CHR '':'' \<notin> set t" "CHR ''/'' \<notin> set t" by auto
  with False show ?thesis by (simp add: parseDockerRepositoryTag_append)
qed

text \<open>The parser on a reference without a slash, and on one split at its first slash.\<close>

lemma parseDockerRepoUrl_single:
  "CHR ''/'' \<notin> set s \<Longrightarrow>
   parseDockerRepoUrl s =
     (if s = DockerIndexServer then Inl PanicIndexOutOfRange
      else case parseDockerRepositoryTag (''library/'' @ s) of (r, t) \<Rightarrow> Inr ([], r, t))"
  by (simp add: parseDockerRepoUrl_def SplitN2_def officialRegistry_def index_def
      IndexRune_absent)

lemma parseDockerRepoUrl_split:
  "CHR ''/'' \<notin> set a \<Longrightarrow>
   parseDockerRepoUrl (a @ CHR ''/'' # b) =
     (if a = DockerIndexServer
      then (case parseDockerRepositoryTag (if CHR ''/'' \<in> set b then b else ''library/'' @ b) of
              (r, t) \<Rightarrow> Inr (DockerIndexServer, r, t))
      else if CHR ''.'' \<notin> set a \<and> CHR '':'' \<notin> set a \<and> a \<noteq> ''localhost''
      then (case parseDockerRepositoryTag (a @ CHR ''/'' # b) of (r, t) \<Rightarrow> Inr ([], r, t))
      else (case parseDockerRepositoryTag b of (r, t) \<Rightarrow> Inr (a, r, t)))"
  by (simp add: parseDockerRepoUrl_def SplitN2_append officialRegistry_def index_def
      IndexRune_absent Contains_single)

lemma DockerIndexServer_no_slash: "CHR ''/'' \<notin> set DockerIndexServer"
  by (simp add: DockerIndexServer_def)

text \<open>The parser fails on the bare index server name and on no other input.\<close>

lemma parseDockerRepoUrl_error_iff:
  "(\<exists>e. parseDockerRepoUrl s = Inl e) = (s = DockerIndexServer)"
proof (cases "CHR ''/'' \<in> set s")
  case False
  then show ?thesis
    by (auto simp: parseDockerRepoUrl_single split: prod.splits)
next
  case True
  then obtain a b where s: "s = a @ CHR ''/'' # b" and a: "CHR ''/'' \<notin> set a"
    by (meson split_list_first)
  from True DockerIndexServer_no_slash have "s \<noteq> DockerIndexServer" by auto
  then show ?thesis
    unfolding s by (auto simp: parseDockerRepoUrl_split [OF a] split: prod.splits)
qed

section \<open>Properties of the image-reference parser\<close>

text \<open>
  C1. The parser maps the three reference strings of the test vectors to the stated
  triples: \<open>ubuntu\<close> to the empty index, repository \<open>library/ubuntu\<close> and no tag;
  \<open>myregistry.com:5000/foo/bar:1.0\<close> to index \<open>myregistry.com:5000\<close>, repository \<open>foo/bar\<close>
  and tag \<open>1.0\<close>; \<open>docker.io/library/nginx\<close> to index \<open>docker.io\<close>, repository
  \<open>library/nginx\<close> and no tag.
\<close>

theorem parseDockerRepoUrl_test_vectors:
  "parseDockerRepoUrl ''ubuntu'' = Inr ('''', ''library/ubuntu'', '''') \<and>
   parseDockerRepoUrl ''myregistry.com:5000/foo/bar:1.0'' =
     Inr (''myregistry.com:5000'', ''foo/bar'', ''1.0'') \<and>
   parseDockerRepoUrl ''docker.io/library/nginx'' = Inr (''docker.io'', ''library/nginx'', '''')"
  by code_simp

lemma scheme_free_ubuntu: "\<not> Contains ''ubuntu'' ''://''"
  by code_simp

lemma parseDockerRepoUrl_ubuntu:
  "parseDockerRepoUrl ''ubuntu'' = Inr ('''', ''library/ubuntu'', '''')"
  by code_simp

text \<open>
  A reference that parses to the empty index name is, after the default namespace has
  been put in front where the parser does so, a first segment that names no registry,
  a slash and a rest; the repository and the tag are cut from that text.
\<close>

lemma parseDockerRepoUrl_empty_index_shape:
  assumes "parseDockerRepoUrl s = Inr ([], r, t)"
  shows "\<exists>a b. CHR ''/'' \<notin> set a \<and> a \<noteq> DockerIndexServer \<and>
           CHR ''.'' \<notin> set a \<and> CHR '':'' \<notin> set a \<and> a \<noteq> ''localhost'' \<and>
           parseDockerRepositoryTag (a @ CHR ''/'' # b) = (r, t)"
proof (cases "CHR ''/'' \<in> set s")
  case False
  with assms have "parseDockerRepositoryTag (''library'' @ CHR ''/'' # s) = (r, t)"
    by (auto simp: parseDockerRepoUrl_single split: if_splits prod.splits)
  moreover have "CHR ''/'' \<notin> set ''library''" "''library'' \<noteq> DockerIndexServer"
    "CHR ''.'' \<notin> set ''library''" "CHR '':'' \<notin> set ''library''" "''library'' \<noteq> ''localhost''"
    by (simp_all add: DockerIndexServer_def)
  ultimately show ?thesis by blast
next
  case True
  then obtain a b where s: "s = a @ CHR ''/'' # b" and a: "CHR ''/'' \<notin> set a"
    by (meson split_list_first)
  have "DockerIndexServer \<noteq> []" by (simp add: DockerIndexServer_def)
  with assms have "a \<noteq> DockerIndexServer \<and> CHR ''.'' \<notin> set a \<and> CHR '':'' \<notin> set a \<and>
      a \<noteq> ''localhost'' \<and> parseDockerRepositoryTag (a @ CHR ''/'' # b) = (r, t)"
    unfolding s parseDockerRepoUrl_split [OF a]
    by (auto split: if_splits prod.splits)
  with a show ?thesis by blast
qed

lemma first_split_unique:
  fixes a :: string
  assumes "c \<notin> set a" and "c \<notin> set a'" and "a @ c # b = a' @ c # b'"
  shows "a = a'"
proof -
  have "[a, b] = SplitN2 (a @ c # b) c"
    by (rule SplitN2_append [OF assms(1), symmetric])
  also have "\<dots> = SplitN2 (a' @ c # b') c"
    by (simp only: assms(3))
  also have "\<dots> = [a', b']"
    by (rule SplitN2_append [OF assms(2)])
  finally show ?thesis by (simp only: list.inject)
qed

text \<open>
  C2 as stated, refuted. The claim: for every scheme-free reference on which parsing
  succeeds, parsing the canonical reference path gives the first triple again. It fails
  at \<open>x.com/a:b:\<close>: the first parse cuts the empty tag after the last colon and leaves the
  repository \<open>a:b\<close>; the canonical path is \<open>x.com/a:b\<close>, and the second parse cuts it at
  the colon into the repository \<open>a\<close> and the tag \<open>b\<close>.
\<close>

theorem reparse_canonical_path_counterexample:
  "\<not> Contains ''x.com/a:b:'' ''://'' \<and>
   parseDockerRepoUrl ''x.com/a:b:'' = Inr (''x.com'', ''a:b'', '''') \<and>
   canonical_reference_path ''x.com'' ''a:b'' '''' = ''x.com/a:b'' \<and>
   parseDockerRepoUrl (canonical_reference_path ''x.com'' ''a:b'' '''') =
     Inr (''x.com'', ''a'', ''b'') \<and>
   parseDockerRepoUrl (canonical_reference_path ''x.com'' ''a:b'' '''') \<noteq>
     parseDockerRepoUrl ''x.com/a:b:''"
  by code_simp

text \<open>
  C2 as amended. For every reference on which parsing succeeds, and whose tag is
  non-empty or whose repository has no tag of its own left to cut, parsing the canonical
  reference path (the repository alone when the index name is empty) gives the same
  index name, repository and tag as the first parse.
\<close>

theorem parseDockerRepoUrl_reparse_canonical_path:
  assumes p: "parseDockerRepoUrl s = Inr (i, r, t)"
    and t: "t \<noteq> [] \<or> parseDockerRepositoryTag r = (r, [])"
  shows "parseDockerRepoUrl (canonical_reference_path i r t) = Inr (i, r, t)"
proof (cases "i = []")
  case True
  let ?x = "r @ (if t = [] then [] else '':'' @ t)"
  from p True obtain a b where a: "CHR ''/'' \<notin> set a" and off: "a \<noteq> DockerIndexServer"
      "CHR ''.'' \<notin> set a \<and> CHR '':'' \<notin> set a \<and> a \<noteq> ''localhost''"
    and m: "parseDockerRepositoryTag (a @ CHR ''/'' # b) = (r, t)"
    using parseDockerRepoUrl_empty_index_shape [of s r t] by auto
  from parseDockerRepositoryTag_cases [OF m]
  obtain rest where rest: "a @ CHR ''/'' # b = r @ rest" by auto
  have "CHR ''/'' \<in> set (a @ CHR ''/'' # b)" by simp
  with m have "CHR ''/'' \<in> set r" by (rule parseDockerRepositoryTag_slash)
  then obtain a' b' where r: "r = a' @ CHR ''/'' # b'" and a': "CHR ''/'' \<notin> set a'"
    by (meson split_list_first)
  from rest r have "a @ CHR ''/'' # b = a' @ CHR ''/'' # (b' @ rest)" by simp
  with a a' have "a = a'" by (rule first_split_unique)
  with r have x: "?x = a @ CHR ''/'' # (b' @ (if t = [] then [] else '':'' @ t))" by simp
  have y: "parseDockerRepositoryTag ?x = (r, t)"
    by (rule parseDockerRepositoryTag_again [OF m t])
  have "parseDockerRepoUrl ?x = Inr ([], r, t)"
    unfolding x parseDockerRepoUrl_split [OF a]
    using off y [unfolded x] by (simp only: if_True if_False prod.case simp_thms)
  with True show ?thesis by (simp add: canonical_reference_path_def)
next
  case i: False
  let ?x = "r @ (if t = [] then [] else '':'' @ t)"
  have c: "canonical_reference_path j r t = j @ CHR ''/'' # ?x" if "j \<noteq> []" for j
    using that by (simp add: canonical_reference_path_def)
  from SplitN2_cases [of "CHR ''/''" s] p i
  obtain a b where s: "s = a @ CHR ''/'' # b" and a: "CHR ''/'' \<notin> set a"
    by (auto simp: parseDockerRepoUrl_single split: if_splits prod.splits)
  show ?thesis
  proof (cases "a = DockerIndexServer")
    case True
    let ?m = "if CHR ''/'' \<in> set b then b else ''library/'' @ b"
    from p s a True have ii: "i = DockerIndexServer" and m: "parseDockerRepositoryTag ?m = (r, t)"
      by (auto simp: parseDockerRepoUrl_split split: prod.splits)
    have "CHR ''/'' \<in> set ?m" by simp
    with m have "CHR ''/'' \<in> set r" by (rule parseDockerRepositoryTag_slash)
    then have x: "CHR ''/'' \<in> set ?x" by simp
    have y: "parseDockerRepositoryTag ?x = (r, t)"
      by (rule parseDockerRepositoryTag_again [OF m t])
    show ?thesis
      unfolding c [OF i] unfolding ii parseDockerRepoUrl_split [OF DockerIndexServer_no_slash]
      by (simp only: x y if_True prod.case refl)
  next
    case False
    with p s a i have ii: "i = a" and m: "parseDockerRepositoryTag b = (r, t)"
      and off: "\<not> (CHR ''.'' \<notin> set a \<and> CHR '':'' \<notin> set a \<and> a \<noteq> ''localhost'')"
      by (auto simp: parseDockerRepoUrl_split split: prod.splits if_splits)
    have y: "parseDockerRepositoryTag ?x = (r, t)"
      by (rule parseDockerRepositoryTag_again [OF m t])
    from off False show ?thesis
      unfolding c [OF i] unfolding ii parseDockerRepoUrl_split [OF a]
      by (simp only: y if_False prod.case refl)
  qed
qed

theorem parseDockerRepoUrl_reparse_canonical_path_witness:
  "parseDockerRepoUrl ''myregistry.com:5000/foo/bar:1.0'' =
     Inr (''myregistry.com:5000'', ''foo/bar'', ''1.0'') \<and>
   ''1.0'' \<noteq> [] \<and>
   parseDockerRepoUrl (canonical_reference_path ''myregistry.com:5000'' ''foo/bar'' ''1.0'') =
     Inr (''myregistry.com:5000'', ''foo/bar'', ''1.0'') \<and>
   parseDockerRepoUrl ''ubuntu'' = Inr ('''', ''library/ubuntu'', '''') \<and>
   parseDockerRepositoryTag ''library/ubuntu'' = (''library/ubuntu'', '''') \<and>
   canonical_reference_path '''' ''library/ubuntu'' '''' = ''library/ubuntu'' \<and>
   parseDockerRepoUrl (canonical_reference_path '''' ''library/ubuntu'' '''') =
     Inr ('''', ''library/ubuntu'', '''')"
proof -
  have p: "parseDockerRepoUrl ''myregistry.com:5000/foo/bar:1.0'' =
             Inr (''myregistry.com:5000'', ''foo/bar'', ''1.0'')"
    by code_simp
  have t: "''1.0'' \<noteq> [] \<or> parseDockerRepositoryTag ''foo/bar'' = (''foo/bar'', [])" by simp
  have q: "parseDockerRepoUrl ''ubuntu'' = Inr ('''', ''library/ubuntu'', '''')"
    by code_simp
  have u: "parseDockerRepositoryTag ''library/ubuntu'' = (''library/ubuntu'', '''')"
    by code_simp
  then have u': "'''' \<noteq> [] \<or> parseDockerRepositoryTag ''library/ubuntu'' = (''library/ubuntu'', [])"
    by simp
  have v: "canonical_reference_path '''' ''library/ubuntu'' '''' = ''library/ubuntu''"
    by code_simp
  from parseDockerRepoUrl_reparse_canonical_path [OF p t]
    parseDockerRepoUrl_reparse_canonical_path [OF q u'] p q u v
  show ?thesis by simp
qed

text \<open>
  C3 as stated, refuted. The claim: when the parsed index name is empty, the path of the
  canonical reference is the repository alone, without the separating slash. At \<open>ubuntu\<close>
  the index is empty and the repository is \<open>library/ubuntu\<close>, but the URL that
  \<open>convertDockerURI\<close> serialises has the path \<open>/library/ubuntu\<close>.
\<close>

theorem convertDockerURI_empty_index_counterexample:
  "\<not> Contains ''ubuntu'' ''://'' \<and>
   parseDockerRepoUrl ''ubuntu'' = Inr ('''', ''library/ubuntu'', '''') \<and>
   convertDockerURI id ''ubuntu'' =
     Inr \<lparr>Scheme = ''docker'', Path = ''/library/ubuntu'', Fragment = ''''\<rparr> \<and>
   convertDockerURI id ''ubuntu'' \<noteq>
     Inr \<lparr>Scheme = ''docker'', Path = ''library/ubuntu'', Fragment = ''''\<rparr>"
  by (simp add: convertDockerURI_def scheme_free_ubuntu parseDockerRepoUrl_ubuntu
      DockerScheme_def)

text \<open>
  C3 as amended. For every scheme-free reference whose parsed index name is empty, the
  URL that normalisation serialises has the fixed scheme, the path \<open>/\<close> followed by the
  repository, and the tag as its fragment (the empty fragment when there is no tag).
\<close>

theorem convertDockerURI_empty_index:
  assumes "\<not> Contains s ''://''"
    and "parseDockerRepoUrl s = Inr ([], r, t)"
  shows "convertDockerURI serialise s =
           Inr (serialise \<lparr>Scheme = ''docker'', Path = CHR ''/'' # r, Fragment = t\<rparr>)"
  using assms by (simp add: convertDockerURI_def DockerScheme_def)

theorem convertDockerURI_empty_index_witness:
  "\<not> Contains ''ubuntu:14.04'' ''://'' \<and>
   parseDockerRepoUrl ''ubuntu:14.04'' = Inr ([], ''library/ubuntu'', ''14.04'') \<and>
   convertDockerURI id ''ubuntu:14.04'' =
     Inr \<lparr>Scheme = ''docker'', Path = ''/library/ubuntu'', Fragment = ''14.04''\<rparr>"
proof -
  have c: "\<not> Contains ''ubuntu:14.04'' ''://''" by code_simp
  have p: "parseDockerRepoUrl ''ubuntu:14.04'' = Inr ([], ''library/ubuntu'', ''14.04'')"
    by code_simp
  have "convertDockerURI id ''ubuntu:14.04'' =
     Inr \<lparr>Scheme = ''docker'', Path = ''/library/ubuntu'', Fragment = ''14.04''\<rparr>"
    using convertDockerURI_empty_index [OF c p, of id] by (simp only: id_apply)
  with c p show ?thesis by (intro conjI)
qed

text \<open>
  C8, on the failing input. The claim: normalisation returns a result for every
  scheme-free input without an out-of-range access, the input \<open>docker.io\<close> included.
  On \<open>docker.io\<close> the split has one element, the registry counts as official, the first
  element equals the index server, and \<^verbatim>\<open>nameParts[1]\<close> is read out of range: the code
  panics.
\<close>

theorem convertDockerURI_index_server_panics:
  "\<not> Contains ''docker.io'' ''://'' \<and>
   SplitN2 ''docker.io'' CHR ''/'' = [''docker.io''] \<and>
   officialRegistry [''docker.io''] = Inr True \<and>
   index [''docker.io''] 1 = Inl PanicIndexOutOfRange \<and>
   parseDockerRepoUrl ''docker.io'' = Inl PanicIndexOutOfRange \<and>
   convertDockerURI id ''docker.io'' = Inl PanicIndexOutOfRange"
proof -
  have a: "\<not> Contains ''docker.io'' ''://''" by code_simp
  have b: "SplitN2 ''docker.io'' CHR ''/'' = [''docker.io'']" by code_simp
  have c: "officialRegistry [''docker.io''] = Inr True" by code_simp
  have d: "index [''docker.io''] 1 = Inl PanicIndexOutOfRange" by code_simp
  have e: "parseDockerRepoUrl ''docker.io'' = Inl PanicIndexOutOfRange" by code_simp
  from a b c d e show ?thesis by (simp add: convertDockerURI_def)
qed

section \<open>Properties of port extraction\<close>

lemma ports_fold:
  "fold (\<lambda>port (exposedPort, ports).
            if Protocol port = ''tcp''
            then (let exposedPort = Port port in (exposedPort, ports @ [exposedPort]))
            else (exposedPort, ports)) xs (p, acc) =
   (last (p # map Port (filter (\<lambda>port. Protocol port = ''tcp'') xs)),
    acc @ map Port (filter (\<lambda>port. Protocol port = ''tcp'') xs))"
  by (induction xs arbitrary: p acc) (simp_all add: Let_def)

lemma extractExposedPorts_eq:
  "extractExposedPorts defaultPort m =
     (if ExposedPorts m = [] then Inr [defaultPort]
      else if map Port (filter (\<lambda>port. Protocol port = ''tcp'') (ExposedPorts m)) = []
      then Inl (ErrorString ''No tcp ports found in image metadata'')
      else Inr (map Port (filter (\<lambda>port. Protocol port = ''tcp'') (ExposedPorts m))))"
  by (simp add: extractExposedPorts_def Let_def ports_fold del: map_is_Nil_conv)

lemma extractExposedPorts_nonempty:
  "extractExposedPorts defaultPort m = Inr ports \<Longrightarrow> ports \<noteq> []"
  by (auto simp: extractExposedPorts_eq split: if_splits)

text \<open>
  C4. (1) Metadata without exposed ports gives the one-element list of the default
  port. (2) With at least one declared port, a successful extraction returns exactly
  the declared tcp ports, in declaration order, and extraction succeeds with that list
  as soon as one declared port is tcp. (3) With ports declared and none of them tcp,
  extraction fails with the no-tcp-ports error. Hence a returned port list is never empty.
\<close>

theorem extractExposedPorts_spec:
  "(ExposedPorts m = [] \<longrightarrow> extractExposedPorts defaultPort m = Inr [defaultPort]) \<and>
   (ExposedPorts m \<noteq> [] \<longrightarrow>
      (\<forall>ports. extractExposedPorts defaultPort m = Inr ports \<longrightarrow>
         ports = map Port (filter (\<lambda>port. Protocol port = ''tcp'') (ExposedPorts m)))) \<and>
   (ExposedPorts m \<noteq> [] \<and> (\<exists>port \<in> set (ExposedPorts m). Protocol port = ''tcp'') \<longrightarrow>
      extractExposedPorts defaultPort m =
        Inr (map Port (filter (\<lambda>port. Protocol port = ''tcp'') (ExposedPorts m)))) \<and>
   (ExposedPorts m \<noteq> [] \<and> (\<forall>port \<in> set (ExposedPorts m). Protocol port \<noteq> ''tcp'') \<longrightarrow>
      extractExposedPorts defaultPort m =
        Inl (ErrorString ''No tcp ports found in image metadata'')) \<and>
   (\<forall>ports. extractExposedPorts defaultPort m = Inr ports \<longrightarrow> ports \<noteq> [])"
  by (auto simp: extractExposedPorts_eq filter_empty_conv)

theorem extractExposedPorts_spec_witness:
  "extractExposedPorts 8080 \<lparr>User = ''root'', ExposedPorts = []\<rparr> = Inr [8080] \<and>
   extractExposedPorts 8080
     \<lparr>User = ''root'',
      ExposedPorts = [\<lparr>Port = 80, Protocol = ''tcp''\<rparr>, \<lparr>Port = 53, Protocol = ''udp''\<rparr>,
                      \<lparr>Port = 443, Protocol = ''tcp''\<rparr>]\<rparr> = Inr [80, 443] \<and>
   extractExposedPorts 8080
     \<lparr>User = ''root'', ExposedPorts = [\<lparr>Port = 53, Protocol = ''udp''\<rparr>]\<rparr> =
     Inl (ErrorString ''No tcp ports found in image metadata'')"
proof -
  let ?m0 = "\<lparr>User = ''root'', ExposedPorts = []\<rparr>"
  let ?m1 = "\<lparr>User = ''root'',
      ExposedPorts = [\<lparr>Port = 80, Protocol = ''tcp''\<rparr>, \<lparr>Port = 53, Protocol = ''udp''\<rparr>,
                      \<lparr>Port = 443, Protocol = ''tcp''\<rparr>]\<rparr>"
  let ?m2 = "\<lparr>User = ''root'', ExposedPorts = [\<lparr>Port = 53, Protocol = ''udp''\<rparr>]\<rparr>"
  have e0: "ExposedPorts ?m0 = []" by simp
  have e1: "ExposedPorts ?m1 \<noteq> [] \<and> (\<exists>port \<in> set (ExposedPorts ?m1). Protocol port = ''tcp'')"
    by simp
  have e2: "ExposedPorts ?m2 \<noteq> [] \<and> (\<forall>port \<in> set (ExposedPorts ?m2). Protocol port \<noteq> ''tcp'')"
    by simp
  from extractExposedPorts_spec [of ?m0 8080] e0
  have r0: "extractExposedPorts 8080 ?m0 = Inr [8080]" by blast
  from extractExposedPorts_spec [of ?m1 8080] e1
  have "extractExposedPorts 8080 ?m1 =
          Inr (map Port (filter (\<lambda>port. Protocol port = ''tcp'') (ExposedPorts ?m1)))"
    by blast
  then have r1: "extractExposedPorts 8080 ?m1 = Inr [80, 443]" by simp
  from extractExposedPorts_spec [of ?m2 8080] e2
  have r2: "extractExposedPorts 8080 ?m2 =
              Inl (ErrorString ''No tcp ports found in image metadata'')"
    by blast
  from r0 r1 r2 show ?thesis by (intro conjI)
qed

section \<open>Properties of Build\<close>

lemma index_Inl: "index xs i = Inl e \<Longrightarrow> e = PanicIndexOutOfRange"
  by (auto simp: index_def split: if_splits)

lemma index_0: "xs \<noteq> [] \<Longrightarrow> index xs 0 = Inr (hd xs)"
  by (cases xs) (simp_all add: index_def)


text \<open>Conversely, a request that passes every stage builds.\<close>

lemma Build_succeeds:
  assumes "DockerImageUrl desiredApp \<noteq> []" and "DropletUri desiredApp = []"
    and "Lifecycles config ''docker'' = Some lifecyclePath"
    and "convertDockerURI (URL_String ext) (DockerImageUrl desiredApp) = Inr rootFSPath"
    and "NewDockerExecutionMetadata ext (ExecutionMetadata desiredApp) = Inr executionMetadata"
    and "extractExposedPorts (DefaultPort ext) executionMetadata = Inr ports"
    and "CCRouteInfoToRoutes ext (RoutingInfo desiredApp) ports = Inr routes"
    and "AllowSSH desiredApp \<longrightarrow>
           NewKeyPair config ks 1024 = (Inr hostKeyPair, ks1) \<and>
           NewKeyPair config ks1 1024 = (Inr userKeyPair, ks2) \<and>
           json_Marshal ext
             \<lparr>ContainerPort = 2222, PrivateKey = PEMEncodedPrivateKey userKeyPair,
              HostFingerprint = Fingerprint hostKeyPair\<rparr> = Inr payload"
  shows "\<exists>lrp. Build ext config ks desiredApp =
                 (Inr lrp, if AllowSSH desiredApp then ks2 else ks)"
proof -
  from assms(6) have "ports \<noteq> []" by (rule extractExposedPorts_nonempty)
  then have i: "index ports 0 = Inr (hd ports)" by (rule index_0)
  show ?thesis
  proof (cases "AllowSSH desiredApp")
    case True
    with assms i show ?thesis
      by (simp add: Build_def Let_def extractUser_def)
  next
    case False
    with assms i show ?thesis
      by (simp add: Build_def Let_def extractUser_def)
  qed
qed

text \<open>The port list and the route table of a successful build.\<close>

lemma Build_values:
  assumes "DockerImageUrl desiredApp \<noteq> []" and "DropletUri desiredApp = []"
    and "Lifecycles config ''docker'' = Some lifecyclePath"
    and "convertDockerURI (URL_String ext) (DockerImageUrl desiredApp) = Inr rootFSPath"
    and "NewDockerExecutionMetadata ext (ExecutionMetadata desiredApp) = Inr executionMetadata"
    and "extractExposedPorts (DefaultPort ext) executionMetadata = Inr ports"
    and "CCRouteInfoToRoutes ext (RoutingInfo desiredApp) ports = Inr routes"
    and "AllowSSH desiredApp \<longrightarrow>
           NewKeyPair config ks 1024 = (Inr hostKeyPair, ks1) \<and>
           NewKeyPair config ks1 1024 = (Inr userKeyPair, ks2) \<and>
           json_Marshal ext
             \<lparr>ContainerPort = 2222, PrivateKey = PEMEncodedPrivateKey userKeyPair,
              HostFingerprint = Fingerprint hostKeyPair\<rparr> = Inr payload"
    and b: "Build ext config ks desiredApp = (Inr lrp, ks')"
  shows "Ports lrp = (if AllowSSH desiredApp then ports @ [DefaultSSHPort ext] else ports)"
    and "Routes lrp =
           (if AllowSSH desiredApp then routes(DIEGO_SSH ext \<mapsto> payload) else routes)"
proof -
  from assms(6) have "ports \<noteq> []" by (rule extractExposedPorts_nonempty)
  then have i: "index ports 0 = Inr (hd ports)" by (rule index_0)
  have lrp: "lrp = projr (fst (Build ext config ks desiredApp))" using b by simp
  show "Ports lrp = (if AllowSSH desiredApp then ports @ [DefaultSSHPort ext] else ports)"
    unfolding lrp using assms(1-8) i
    by (cases "AllowSSH desiredApp") (simp_all add: Build_def Let_def extractUser_def)
  show "Routes lrp =
          (if AllowSSH desiredApp then routes(DIEGO_SSH ext \<mapsto> payload) else routes)"
    unfolding lrp using assms(1-8) i
    by (cases "AllowSSH desiredApp") (simp_all add: Build_def Let_def extractUser_def)
qed

text \<open>
  A request with the image, droplet and metadata of the sample request builds under the
  sample configuration on every platform that decodes the blob \<open>{}\<close> as the sample
  platform does and has the default port 8080.
\<close>

lemma example_convertDockerURI:
  "convertDockerURI serialise ''user/repo:tag'' =
     Inr (serialise \<lparr>Scheme = ''docker'', Path = ''/user/repo'', Fragment = ''tag''\<rparr>)"
proof -
  have c: "\<not> Contains ''user/repo:tag'' ''://''" by code_simp
  have p: "parseDockerRepoUrl ''user/repo:tag'' = Inr ([], ''user/repo'', ''tag'')"
    by code_simp
  show ?thesis
    by (simp add: convertDockerURI_def c p DockerScheme_def)
qed

lemma example_Config_stages:
  "Lifecycles example_Config ''docker'' = Some ''docker_lifecycle/docker_app_lifecycle.tgz''"
  "NewKeyPair example_Config ks bits =
     (Inr \<lparr>PEMEncodedPrivateKey = ''pem-'' @ decimal ks,
           AuthorizedKey = ''authorized-'' @ decimal ks,
           Fingerprint = ''fingerprint-'' @ decimal ks\<rparr>, Suc ks)"
  by (simp_all add: example_Config_def)

lemma sample_Build:
  assumes d: "DockerImageUrl req = ''user/repo:tag''" and u: "DropletUri req = []"
    and m: "ExecutionMetadata req = ''{}''"
    and md: "NewDockerExecutionMetadata ext ''{}'' = Inr \<lparr>User = [], ExposedPorts = []\<rparr>"
    and dp: "DefaultPort ext = 8080"
    and rt: "CCRouteInfoToRoutes ext (RoutingInfo req) [8080] = Inr routes"
    and jm: "json_Marshal ext
               \<lparr>ContainerPort = 2222, PrivateKey = ''pem-'' @ decimal (Suc 0),
                HostFingerprint = ''fingerprint-'' @ decimal 0\<rparr> = Inr payload"
  shows "\<exists>lrp. Build ext example_Config 0 req = (Inr lrp, if AllowSSH req then 2 else 0) \<and>
           Ports lrp = (if AllowSSH req then [8080, DefaultSSHPort ext] else [8080]) \<and>
           Routes lrp = (if AllowSSH req then routes(DIEGO_SSH ext \<mapsto> payload) else routes)"
proof -
  let ?hk = "\<lparr>PEMEncodedPrivateKey = ''pem-'' @ decimal 0,
              AuthorizedKey = ''authorized-'' @ decimal 0,
              Fingerprint = ''fingerprint-'' @ decimal 0\<rparr>"
  let ?uk = "\<lparr>PEMEncodedPrivateKey = ''pem-'' @ decimal (Suc 0),
              AuthorizedKey = ''authorized-'' @ decimal (Suc 0),
              Fingerprint = ''fingerprint-'' @ decimal (Suc 0)\<rparr>"
  have s1: "DockerImageUrl req \<noteq> []" by (simp add: d)
  have s3: "Lifecycles example_Config ''docker'' =
              Some ''docker_lifecycle/docker_app_lifecycle.tgz''"
    by (simp add: example_Config_stages)
  have s4: "convertDockerURI (URL_String ext) (DockerImageUrl req) =
              Inr (URL_String ext
                     \<lparr>Scheme = ''docker'', Path = ''/user/repo'', Fragment = ''tag''\<rparr>)"
    by (simp add: d example_convertDockerURI)
  have s5: "NewDockerExecutionMetadata ext (ExecutionMetadata req) =
              Inr \<lparr>User = [], ExposedPorts = []\<rparr>"
    by (simp add: m md)
  have s6: "extractExposedPorts (DefaultPort ext) \<lparr>User = [], ExposedPorts = []\<rparr> = Inr [8080]"
    by (simp add: dp extractExposedPorts_eq)
  have s8: "AllowSSH req \<longrightarrow>
           NewKeyPair example_Config 0 1024 = (Inr ?hk, Suc 0) \<and>
           NewKeyPair example_Config (Suc 0) 1024 = (Inr ?uk, Suc (Suc 0)) \<and>
           json_Marshal ext
             \<lparr>ContainerPort = 2222, PrivateKey = PEMEncodedPrivateKey ?uk,
              HostFingerprint = Fingerprint ?hk\<rparr> = Inr payload"
    by (simp only: example_Config_stages jm KeyPair.simps simp_thms)
  from Build_succeeds [OF s1 u s3 s4 s5 s6 rt s8]
  obtain lrp where b: "Build ext example_Config 0 req =
      (Inr lrp, if AllowSSH req then Suc (Suc 0) else 0)"
    by blast
  have "Ports lrp = (if AllowSSH req then [8080] @ [DefaultSSHPort ext] else [8080])"
    by (rule Build_values(1) [OF s1 u s3 s4 s5 s6 rt s8 b])
  moreover
  have "Routes lrp = (if AllowSSH req then routes(DIEGO_SSH ext \<mapsto> payload) else routes)"
    by (rule Build_values(2) [OF s1 u s3 s4 s5 s6 rt s8 b])
  ultimately show ?thesis using b
    by (cases "AllowSSH req") (simp_all add: numeral_2_eq_2)
qed

text \<open>The sample platform and the sample request.\<close>

lemma example_stages:
  "DockerImageUrl example_request = ''user/repo:tag''"
  "DropletUri example_request = []"
  "ExecutionMetadata example_request = ''{}''"
  "HealthCheckType example_request = ''port''"
  "RoutingInfo example_request = Map.empty"
  "Lifecycles example_Config ''docker'' = Some ''docker_lifecycle/docker_app_lifecycle.tgz''"
  "NewDockerExecutionMetadata example_Externals ''{}'' = Inr \<lparr>User = [], ExposedPorts = []\<rparr>"
  "DefaultPort example_Externals = 8080"
  "DefaultSSHPort example_Externals = 2222"
  "DIEGO_SSH example_Externals = ''diego-ssh''"
  "PortHealthCheckType example_Externals = ''port''"
  "UnspecifiedHealthCheckType example_Externals = []"
  "CCRouteInfoToRoutes example_Externals routingInfo ports = Inr [''cf-router'' \<mapsto> ''[]'']"
  "json_Marshal example_Externals route =
     Inr (''container_port='' @ decimal (unat (ContainerPort route)) @
          '',private_key='' @ PrivateKey route @
          '',host_fingerprint='' @ HostFingerprint route)"
  by (simp_all add: example_request_def example_Config_def example_Externals_def)

lemma example_Build:
  assumes d: "DockerImageUrl req = ''user/repo:tag''" and u: "DropletUri req = []"
    and m: "ExecutionMetadata req = ''{}''"
  shows "\<exists>lrp. Build example_Externals example_Config 0 req =
                 (Inr lrp, if AllowSSH req then 2 else 0)"
  using sample_Build [OF d u m example_stages(7) example_stages(8) example_stages(13)
      example_stages(14)]
  by blast



text \<open>
  C5. A request with both the image reference and the droplet URI non-empty fails with
  \<open>ErrMultipleAppSources\<close> (ConflictingSources); a request with neither fails with
  \<open>ErrDockerImageMissing\<close> (MissingImageSource). In both cases the result is the error,
  not a desired LRP, and the key factory is untouched.
\<close>

theorem Build_source_validation:
  "(DockerImageUrl desiredApp \<noteq> [] \<and> DropletUri desiredApp \<noteq> [] \<longrightarrow>
      Build ext config ks desiredApp = (Inl ErrMultipleAppSources, ks)) \<and>
   (DockerImageUrl desiredApp = [] \<and> DropletUri desiredApp = [] \<longrightarrow>
      Build ext config ks desiredApp = (Inl ErrDockerImageMissing, ks))"
  by (simp add: Build_def)

theorem Build_source_validation_witness:
  "Build example_Externals example_Config (0::nat)
     (example_request\<lparr>DropletUri := ''http://the-droplet.uri.com''\<rparr>) =
     (Inl ErrMultipleAppSources, 0) \<and>
   Build example_Externals example_Config (0::nat)
     (example_request\<lparr>DockerImageUrl := ''''\<rparr>) = (Inl ErrDockerImageMissing, 0)"
  using
    Build_source_validation
      [of "example_request\<lparr>DropletUri := ''http://the-droplet.uri.com''\<rparr>"
          example_Externals example_Config 0]
    Build_source_validation
      [of "example_request\<lparr>DockerImageUrl := ''''\<rparr>" example_Externals example_Config 0]
  by (simp add: example_stages)

lemma convertDockerURI_error:
  "convertDockerURI serialise u = Inl e \<Longrightarrow> e \<noteq> ErrNoDockerImage"
  by (auto simp: convertDockerURI_def parseDockerRepoUrl_def officialRegistry_def Let_def
      dest!: index_Inl split: if_splits sum.splits prod.splits)

lemma extractExposedPorts_error:
  "extractExposedPorts p m = Inl e \<Longrightarrow> e \<noteq> ErrNoDockerImage"
  by (auto simp: extractExposedPorts_eq split: if_splits)

text \<open>
  C9. Build never returns \<open>ErrNoDockerImage\<close>: the second test of an empty image
  reference comes after the first, which has already returned \<open>ErrDockerImageMissing\<close>,
  and no later stage produces this error.
\<close>

theorem Build_never_ErrNoDockerImage:
  "fst (Build ext config ks desiredApp) \<noteq> Inl ErrNoDockerImage"
  by (auto simp: Build_def Let_def extractUser_def
      dest!: index_Inl convertDockerURI_error extractExposedPorts_error
      split: if_splits sum.splits prod.splits option.splits)

text \<open>
  C10. The desired LRP of a successful build is not privileged and has no
  container-level environment variables, whatever the request.
\<close>

theorem Build_privileged_env:
  "Build ext config ks desiredApp = (Inr lrp, ks') \<Longrightarrow>
   \<not> Privileged lrp \<and> EnvironmentVariables lrp = []"
  by (auto simp: Build_def Let_def
      split: if_splits sum.splits prod.splits option.splits)

theorem Build_privileged_env_witness:
  "\<exists>lrp. Build example_Externals example_Config (0::nat) example_request = (Inr lrp, 0) \<and>
         \<not> Privileged lrp \<and> EnvironmentVariables lrp = []"
proof -
  from example_Build [of example_request]
  obtain lrp where b: "Build example_Externals example_Config 0 example_request = (Inr lrp, 0)"
    by (auto simp: example_stages example_request_def)
  from Build_privileged_env [OF b] b show ?thesis by blast
qed

text \<open>
  C7. On a successful build the monitor is present exactly when the health-check type
  of the request is the port type or the unspecified type. It is then a timeout of 30
  seconds (in nanoseconds) around the parallel probe of the ports extracted from the
  metadata, run as the extracted user; otherwise there is no monitor.
\<close>

theorem Build_monitor:
  assumes "Build ext config ks desiredApp = (Inr lrp, ks')"
  shows "\<exists>executionMetadata user ports.
     NewDockerExecutionMetadata ext (ExecutionMetadata desiredApp) = Inr executionMetadata \<and>
     extractUser executionMetadata = Inr user \<and>
     extractExposedPorts (DefaultPort ext) executionMetadata = Inr ports \<and>
     Monitor lrp =
       (if HealthCheckType desiredApp = PortHealthCheckType ext \<or>
           HealthCheckType desiredApp = UnspecifiedHealthCheckType ext
        then Some (TimeoutAction (getParallelAction ext ports user) 30000000000)
        else None)"
  using assms
  by (auto simp: Build_def Let_def WrapAction_def Timeout_def Second_def
      split: if_splits sum.splits prod.splits option.splits)

theorem Build_monitor_witness:
  "(\<exists>lrp. Build example_Externals example_Config (0::nat) example_request = (Inr lrp, 0) \<and>
          Monitor lrp =
            Some (TimeoutAction (getParallelAction example_Externals [8080] ''root'')
                    30000000000)) \<and>
   (\<exists>lrp. Build example_Externals example_Config (0::nat)
            (example_request\<lparr>HealthCheckType := ''none''\<rparr>) = (Inr lrp, 0) \<and>
          Monitor lrp = None)"
proof
  from example_Build [of example_request]
  obtain lrp where b: "Build example_Externals example_Config 0 example_request = (Inr lrp, 0)"
    by (auto simp: example_stages example_request_def)
  from Build_monitor [OF b]
  have "Monitor lrp =
          Some (TimeoutAction (getParallelAction example_Externals [8080] ''root'') 30000000000)"
    by (auto simp: example_stages extractUser_def extractExposedPorts_eq)
  with b show "\<exists>lrp. Build example_Externals example_Config 0 example_request = (Inr lrp, 0) \<and>
          Monitor lrp =
            Some (TimeoutAction (getParallelAction example_Externals [8080] ''root'')
                    30000000000)"
    by blast
next
  let ?req = "example_request\<lparr>HealthCheckType := ''none''\<rparr>"
  from example_Build [of ?req]
  obtain lrp where b: "Build example_Externals example_Config 0 ?req = (Inr lrp, 0)"
    by (auto simp: example_stages example_request_def)
  from Build_monitor [OF b]
  have "Monitor lrp = None"
    by (auto simp: example_stages)
  with b show "\<exists>lrp. Build example_Externals example_Config 0 ?req = (Inr lrp, 0) \<and>
          Monitor lrp = None"
    by blast
qed





end
